theory Spec2Isabelle
  imports Complex_Main "HOL-Library.Word" "HOL-Library.Signed_Division" "HOL-Library.Log_Nat"
begin

section \<open>Go values used by package average\<close>

subsection \<open>Returned errors and runtime panics\<close>

text \<open>
  \<open>New\<close> reports a misconfiguration with \<open>errors.New(msg)\<close>; every other failure of the
  package is a runtime panic of Go itself (a slice made with a negative length, an index
  out of range, an integer division by zero). Both are values of the model.
\<close>

datatype failure = Err string | Panic string

definition and_then :: "failure + 'a \<Rightarrow> ('a \<Rightarrow> failure + 'b) \<Rightarrow> failure + 'b" where
  "and_then r f = (case r of Inl e \<Rightarrow> Inl e | Inr x \<Rightarrow> f x)"

subsection \<open>int64 and time.Duration\<close>

text \<open>
  \<open>time.Duration\<close> is an \<open>int64\<close> count of nanoseconds, and the per-bucket counters are
  \<open>int64\<close>: both are 64-bit words read in two's complement. Go's \<open>/\<close> and \<open>%\<close> truncate
  towards zero, and \<open>math.MinInt64 / -1\<close> wraps; the callers check for a zero divisor
  (or panic) before dividing. Comparison of durations is the signed order \<open>\<le>s\<close>, \<open><s\<close>.
  Go's \<open>int\<close> (the fields \<open>pos\<close> and \<open>size\<close>, slice lengths and indices) is 64 bits wide on
  the platforms considered; it is modelled by \<open>int\<close>, and \<open>int(d)\<close> of a duration is
  \<open>sint d\<close>. Its wrap-around is not modelled: an instance made by \<open>New\<close> keeps \<open>pos\<close> below
  the number of buckets and \<open>size\<close> at most that number.
\<close>

type_synonym int64 = "64 word"
type_synonym Duration = "64 word"

definition int64_div :: "int64 \<Rightarrow> int64 \<Rightarrow> int64" where
  "int64_div a b = word_of_int (sint a sdiv sint b)"

definition int64_rem :: "int64 \<Rightarrow> int64 \<Rightarrow> int64" where
  "int64_rem a b = word_of_int (sint a smod sint b)"

definition Second :: Duration where
  "Second = 1000000000"

subsection \<open>float64\<close>

text \<open>
  A \<open>float64\<close> is a finite binary64 value (a rational here), an infinity or a NaN. The
  two zeros are identified: Go's \<open>==\<close> does not tell them apart, and the package never
  divides by a float zero. Every arithmetic operation rounds its exact result to the
  nearest binary64 value, ties to even (\<open>f64_round\<close>): 53 bits of precision, exponents
  from \<open>-1022\<close> to \<open>1023\<close>, gradual underflow below \<open>2 powi -1022\<close>, and overflow to an
  infinity when the rounded value reaches \<open>2 powi 1024\<close>, that is when the exponent
  exceeds \<open>1023\<close> or the significand \<open>n\<close> is rounded up to \<open>2 ^ 53 = 9007199254740992\<close> at
  exponent \<open>1023\<close>.
\<close>

datatype float64 = Finite rat | PosInf | NegInf | NaN

definition round_half_even :: "rat \<Rightarrow> int" where
  "round_half_even x =
     (let f = \<lfloor>x\<rfloor>; r = x - of_int f
      in if r < 1 / 2 then f
         else if 1 / 2 < r then f + 1
         else if even f then f else f + 1)"

text \<open>For \<open>0 < x\<close>, the \<open>e\<close> with \<open>2 powi e \<le> x < 2 powi (e + 1)\<close>.\<close>

definition ilog2 :: "rat \<Rightarrow> int" where
  "ilog2 x =
     (let e = bitlen (fst (quotient_of x)) - bitlen (snd (quotient_of x))
      in if 2 powi e \<le> x then e else e - 1)"

definition f64_round :: "rat \<Rightarrow> float64" where
  "f64_round x =
     (if x = 0 then Finite 0
      else
        let e = max (ilog2 \<bar>x\<bar>) (- 1022);
            n = round_half_even (\<bar>x\<bar> / 2 powi (e - 52))
        in if 1023 < e \<or> (e = 1023 \<and> n = 9007199254740992)
           then (if 0 < x then PosInf else NegInf)
           else Finite (sgn x * (of_int n * 2 powi (e - 52))))"

text \<open>\<open>a + b\<close> on \<open>float64\<close>.\<close>

fun f64_add :: "float64 \<Rightarrow> float64 \<Rightarrow> float64" where
  "f64_add NaN _ = NaN"
| "f64_add _ NaN = NaN"
| "f64_add PosInf NegInf = NaN"
| "f64_add NegInf PosInf = NaN"
| "f64_add PosInf _ = PosInf"
| "f64_add _ PosInf = PosInf"
| "f64_add NegInf _ = NegInf"
| "f64_add _ NegInf = NegInf"
| "f64_add (Finite a) (Finite b) = f64_round (a + b)"

text \<open>
  \<open>a / b\<close> on \<open>float64\<close>. With the zeros identified, a zero divisor is taken as \<open>+0\<close>;
  \<open>Average\<close>, the only caller, divides by \<open>float64(sampleCount)\<close> with
  \<open>sampleCount != 0\<close>.
\<close>

fun f64_div :: "float64 \<Rightarrow> float64 \<Rightarrow> float64" where
  "f64_div NaN _ = NaN"
| "f64_div _ NaN = NaN"
| "f64_div PosInf (Finite b) = (if b < 0 then NegInf else PosInf)"
| "f64_div NegInf (Finite b) = (if b < 0 then PosInf else NegInf)"
| "f64_div PosInf _ = NaN"
| "f64_div NegInf _ = NaN"
| "f64_div (Finite a) PosInf = Finite 0"
| "f64_div (Finite a) NegInf = Finite 0"
| "f64_div (Finite a) (Finite b) =
     (if b = 0 then (if a = 0 then NaN else if 0 < a then PosInf else NegInf)
      else f64_round (a / b))"

text \<open>The conversion \<open>float64(n)\<close> of an \<open>int64\<close>, and of an untyped constant.\<close>

definition f64_of_int64 :: "int64 \<Rightarrow> float64" where
  "f64_of_int64 n = f64_round (of_int (sint n))"

definition f64_const :: "rat \<Rightarrow> float64" where
  "f64_const x = f64_round x"

section \<open>The sliding window\<close>

text \<open>
  The struct of \<open>slidingwindow.go\<close>. \<open>samples\<close> and \<open>counts\<close> are the two parallel
  slices, \<open>pos\<close> the index of the current bucket, \<open>size'\<close> the field \<open>size\<close>. The
  fields \<open>stopOnce\<close> and \<open>stopC\<close> are represented by \<open>stopped\<close>: whether \<open>Stop\<close> has
  delivered its signal and the \<open>shifter\<close> goroutine has returned. Every method body runs
  under the struct's lock, so an execution is a sequence of whole method calls and ticks.
\<close>

record SlidingWindow =
  window :: Duration
  granularity :: Duration
  samples :: "float64 list"
  counts :: "int64 list"
  pos :: int
  size' :: int
  stopped :: bool

text \<open>\<open>make([]T, n)\<close>: a slice of \<open>n\<close> zero values; a negative length panics.\<close>

definition make :: "int \<Rightarrow> 'a \<Rightarrow> failure + 'a list" where
  "make n z =
     (if n < 0 then Inl (Panic ''makeslice: len out of range'')
      else Inr (replicate (nat n) z))"

definition New :: "Duration \<Rightarrow> Duration \<Rightarrow> failure + SlidingWindow" where
  "New w g =
     (if w = 0 then Inl (Err ''window cannot be 0'')
      else if g = 0 then Inl (Err ''granularity cannot be 0'')
      else if w \<le>s g \<or> int64_rem w g \<noteq> 0
        then Inl (Err ''window size has to be a multiplier of the granularity size'')
      else
        and_then (make (sint (int64_div w g)) (Finite 0)) (\<lambda>samples0.
        and_then (make (sint (int64_div w g)) 0) (\<lambda>counts0.
        Inr \<lparr>window = w, granularity = g, samples = samples0, counts = counts0,
             pos = 0, size' = sint (int64_div w g), stopped = False\<rparr>)))"

text \<open>One iteration of the \<open>shifter\<close> loop taking the \<open>ticker.C\<close> branch.\<close>

definition shifter_tick :: "SlidingWindow \<Rightarrow> failure + SlidingWindow" where
  "shifter_tick sw =
     (let p = (if int (length (samples sw)) \<le> pos sw + 1 then 0 else pos sw + 1)
      in if p < 0 \<or> int (length (samples sw)) \<le> p then Inl (Panic ''index out of range'')
         else if int (length (counts sw)) \<le> p then Inl (Panic ''index out of range'')
         else Inr (sw\<lparr>pos := p,
                      samples := (samples sw)[nat p := Finite 0],
                      counts := (counts sw)[nat p := 0]\<rparr>))"

definition Add :: "SlidingWindow \<Rightarrow> float64 \<Rightarrow> failure + SlidingWindow" where
  "Add sw v =
     (if pos sw < 0 \<or> int (length (samples sw)) \<le> pos sw
        then Inl (Panic ''index out of range'')
      else if int (length (counts sw)) \<le> pos sw then Inl (Panic ''index out of range'')
      else Inr (sw\<lparr>samples := (samples sw)[nat (pos sw) :=
                        f64_add (samples sw ! nat (pos sw)) v],
                   counts := (counts sw)[nat (pos sw) := counts sw ! nat (pos sw) + 1]\<rparr>))"

text \<open>
  The loop of \<open>Total\<close>, \<open>for i := 0; i < sampleCount; i++\<close>, from the iteration \<open>i\<close> on
  with the running \<open>total\<close> (here \<open>total'\<close>) and \<open>totalCount\<close>.
\<close>

function Total_loop ::
  "SlidingWindow \<Rightarrow> int \<Rightarrow> int \<Rightarrow> float64 \<Rightarrow> int64 \<Rightarrow> failure + (float64 \<times> int64)" where
  "Total_loop sw sampleCount i total' totalCount =
     (if i < sampleCount then
        (let p = (if pos sw - i < 0 then pos sw - i + int (length (samples sw))
                  else pos sw - i)
         in if p < 0 \<or> int (length (samples sw)) \<le> p
              then Inl (Panic ''index out of range'')
            else if int (length (counts sw)) \<le> p then Inl (Panic ''index out of range'')
            else Total_loop sw sampleCount (i + 1)
                   (f64_add total' (samples sw ! nat p)) (totalCount + counts sw ! nat p))
      else Inr (total', totalCount))"
  by pat_completeness auto
termination
  by (relation "measure (\<lambda>(sw, sampleCount, i, total', totalCount). nat (sampleCount - i))")
    auto

declare Total_loop.simps [simp del]

definition Total' :: "SlidingWindow \<Rightarrow> Duration \<Rightarrow> failure + (float64 \<times> int64)" where
  "Total' sw d =
     (let d1 = (if window sw <s d then window sw else d)
      in if granularity sw = 0 then Inl (Panic ''integer divide by zero'')
         else
           let sampleCount = sint (int64_div d1 (granularity sw));
               sampleCount1 = (if size' sw < sampleCount then size' sw else sampleCount)
           in Total_loop sw sampleCount1 0 (Finite 0) 0)"

definition Average :: "SlidingWindow \<Rightarrow> Duration \<Rightarrow> failure + float64" where
  "Average sw d =
     (case Total' sw d of
        Inl e \<Rightarrow> Inl e
      | Inr (total', sampleCount) \<Rightarrow>
          if sampleCount = 0 then Inr (Finite 0)
          else Inr (f64_div total' (f64_of_int64 sampleCount)))"

text \<open>The loop of \<open>Reset\<close>, \<open>for i := range sw.samples\<close>, from the index \<open>i\<close> on.\<close>

function Reset_loop :: "SlidingWindow \<Rightarrow> nat \<Rightarrow> failure + SlidingWindow" where
  "Reset_loop sw i =
     (if i < length (samples sw) then
        (if length (counts sw) \<le> i then Inl (Panic ''index out of range'')
         else Reset_loop (sw\<lparr>samples := (samples sw)[i := Finite 0],
                             counts := (counts sw)[i := 0]\<rparr>) (Suc i))
      else Inr sw)"
  by pat_completeness auto
termination
  by (relation "measure (\<lambda>(sw, i). length (samples sw) - i)") auto

declare Reset_loop.simps [simp del]

definition Reset :: "SlidingWindow \<Rightarrow> failure + SlidingWindow" where
  "Reset sw = Reset_loop (sw\<lparr>pos := 0, size' := 0\<rparr>) 0"

definition Stop :: "SlidingWindow \<Rightarrow> SlidingWindow" where
  "Stop sw = sw\<lparr>stopped := True\<rparr>"

subsection \<open>Executions\<close>

text \<open>
  What can happen to an instance: a call of one of its methods, or a tick of its ticker.
  After \<open>Stop\<close> the \<open>shifter\<close> has returned and a tick does nothing. A panic ends the
  execution. The queries return the instance unchanged.
\<close>

datatype event =
  CallAdd float64 | Tick | CallReset | CallTotal Duration | CallAverage Duration | CallStop

fun step :: "event \<Rightarrow> SlidingWindow \<Rightarrow> failure + SlidingWindow" where
  "step (CallAdd v) sw = Add sw v"
| "step Tick sw = (if stopped sw then Inr sw else shifter_tick sw)"
| "step CallReset sw = Reset sw"
| "step (CallTotal d) sw = and_then (Total' sw d) (\<lambda>_. Inr sw)"
| "step (CallAverage d) sw = and_then (Average sw d) (\<lambda>_. Inr sw)"
| "step CallStop sw = Inr (Stop sw)"

fun run :: "event list \<Rightarrow> SlidingWindow \<Rightarrow> failure + SlidingWindow" where
  "run [] sw = Inr sw"
| "run (e # es) sw = and_then (step e sw) (run es)"

text \<open>
  The states an instance made by \<open>New\<close> can be in: the configuration \<open>New\<close> accepts, both
  slices of \<open>window / granularity\<close> buckets, the cursor inside them, and \<open>size\<close> between
  zero and the number of buckets.
\<close>

definition well_formed :: "SlidingWindow \<Rightarrow> bool" where
  "well_formed sw \<longleftrightarrow>
     0 <s granularity sw \<and> granularity sw <s window sw
     \<and> int64_rem (window sw) (granularity sw) = 0
     \<and> int (length (samples sw)) = sint (int64_div (window sw) (granularity sw))
     \<and> length (counts sw) = length (samples sw)
     \<and> 0 \<le> pos sw \<and> pos sw < int (length (samples sw))
     \<and> 0 \<le> size' sw \<and> size' sw \<le> int (length (samples sw))"

subsection \<open>The fixtures of the tests\<close>

text \<open>The struct literals of \<open>TestTotal\<close> and \<open>TestAverage\<close>.\<close>

definition fixture_total :: SlidingWindow where
  "fixture_total =
     \<lparr>window = 10 * Second, granularity = Second,
      samples = map Finite [1, 2, 5, 0, 0, 0, 0, 0, 4, 0],
      counts = [1, 2, 2, 0, 0, 0, 0, 0, 4, 0],
      pos = 1, size' = 10, stopped = False\<rparr>"

definition fixture_average :: SlidingWindow where
  "fixture_average =
     \<lparr>window = 10 * Second, granularity = Second,
      samples = map Finite [20, 4, 5, 0, 0, 0, 0, 0, 4, 10],
      counts = [10, 2, 5, 0, 0, 0, 0, 0, 4, 2],
      pos = 1, size' = 10, stopped = False\<rparr>"

text \<open>The body of \<open>TestTotalFromNew\<close>, up to its assertions.\<close>

definition total_from_new :: "failure + (float64 \<times> int64)" where
  "total_from_new =
     and_then (New (10 * Second) Second) (\<lambda>sw.
     and_then (Add sw (Finite 10)) (\<lambda>sw.
     and_then (Add sw (Finite 20)) (\<lambda>sw.
     Total' sw Second)))"

text \<open>
  A fresh instance of ten buckets that is reset after an \<open>Add\<close>, then sees ten ticks (a
  whole window of rotations) and another \<open>Add\<close>.
\<close>

definition reset_then_rotate :: "failure + SlidingWindow" where
  "reset_then_rotate =
     and_then (New (10 * Second) Second)
       (run ([CallAdd (Finite 7), CallReset] @ replicate 10 Tick @ [CallAdd (Finite 5)]))"

section \<open>Arithmetic of \<open>int64\<close>\<close>

text \<open>
  Where the quotient or remainder of two \<open>int64\<close> values does not wrap, it is the
  truncated quotient or remainder of the integers they denote.
\<close>

lemma sint_word_of_int_64:
  "- (2 ^ 63) \<le> k \<Longrightarrow> k < 2 ^ 63 \<Longrightarrow> sint (word_of_int k :: 64 word) = k"
  by (simp add: sint_sbintrunc' signed_take_bit_int_eq_self)

lemma sint_64_range: "- (2 ^ 63) \<le> sint (a :: 64 word) \<and> sint a < 2 ^ 63"
  using sint_ge [of a] sint_lt [of a] by simp

lemma sdiv_pos_divisor:
  "0 < (l::int) \<Longrightarrow> k sdiv l = (if 0 \<le> k then k div l else - ((- k) div l))"
  by (auto simp: signed_divide_int_def sgn_if)

lemma sdiv_neg_divisor:
  "(l::int) < 0 \<Longrightarrow> 0 \<le> k \<Longrightarrow> k sdiv l = - (k div (- l))"
  by (auto simp: signed_divide_int_def sgn_if)

lemma smod_nonneg: "0 \<le> (k::int) \<Longrightarrow> k smod l = k mod \<bar>l\<bar>"
  by (auto simp: smod_int_alt_def sgn_if)

lemma smod_neg: "(k::int) < 0 \<Longrightarrow> k smod l = - ((- k) mod \<bar>l\<bar>)"
  by (auto simp: smod_int_alt_def sgn_if)

lemma div_bounds_nonneg: "0 \<le> (k::int) \<Longrightarrow> 0 < l \<Longrightarrow> 0 \<le> k div l \<and> k div l \<le> k"
  by (metis div_by_1 int_one_le_iff_zero_less pos_imp_zdiv_nonneg_iff zdiv_mono2 zero_less_one)

lemma sdiv_pos_bounds:
  assumes "0 < (l::int)"
  shows "(0 \<le> k \<longrightarrow> 0 \<le> k sdiv l \<and> k sdiv l \<le> k) \<and> (k < 0 \<longrightarrow> k \<le> k sdiv l \<and> k sdiv l \<le> 0)"
  using div_bounds_nonneg [of k l] div_bounds_nonneg [of "- k" l] assms
  by (auto simp: sdiv_pos_divisor)

lemma smod_bounds:
  "(0 \<le> (k::int) \<longrightarrow> 0 \<le> k smod l \<and> k smod l \<le> k) \<and> (k < 0 \<longrightarrow> k \<le> k smod l \<and> k smod l \<le> 0)"
proof (cases "l = 0")
  case True
  then show ?thesis by simp
next
  case False
  then have "0 < \<bar>l\<bar>" by simp
  then show ?thesis
    using zmod_le_nonneg_dividend [of k "\<bar>l\<bar>"] zmod_le_nonneg_dividend [of "- k" "\<bar>l\<bar>"]
      pos_mod_sign [of "\<bar>l\<bar>" k] pos_mod_sign [of "\<bar>l\<bar>" "- k"]
    by (auto simp: smod_nonneg smod_neg)
qed

lemma sint_int64_div_pos:
  assumes "0 < sint b"
  shows "sint (int64_div a b) = sint a sdiv sint b"
proof -
  have "- (2 ^ 63) \<le> sint a sdiv sint b \<and> sint a sdiv sint b < 2 ^ 63"
    using sdiv_pos_bounds [OF assms, of "sint a"] sint_64_range [of a]
    by (cases "0 \<le> sint a") auto
  then show ?thesis
    by (simp add: int64_div_def sint_word_of_int_64)
qed

lemma sint_int64_div_neg:
  assumes "sint b < 0" and "0 \<le> sint a"
  shows "sint (int64_div a b) = - (sint a div (- sint b))"
proof -
  have "0 \<le> sint a div (- sint b) \<and> sint a div (- sint b) \<le> sint a"
    using div_bounds_nonneg [of "sint a" "- sint b"] assms by simp
  then have "- (2 ^ 63) \<le> - (sint a div (- sint b)) \<and> - (sint a div (- sint b)) < 2 ^ 63"
    using sint_64_range [of a] by auto
  then have "sint (word_of_int (- (sint a div (- sint b))) :: 64 word) = - (sint a div (- sint b))"
    by (intro sint_word_of_int_64) auto
  moreover have "sint a sdiv sint b = - (sint a div (- sint b))"
    using assms by (rule sdiv_neg_divisor)
  ultimately show ?thesis
    unfolding int64_div_def by (simp only:)
qed

lemma sint_int64_rem: "sint (int64_rem a b) = sint a smod sint b"
proof -
  have "- (2 ^ 63) \<le> sint a smod sint b \<and> sint a smod sint b < 2 ^ 63"
    using smod_bounds [of "sint a" "sint b"] sint_64_range [of a]
    by (cases "0 \<le> sint a") auto
  then show ?thesis
    by (simp add: int64_rem_def sint_word_of_int_64)
qed

lemma int64_rem_eq_0: "int64_rem a b = 0 \<longleftrightarrow> sint a smod sint b = 0"
  by (metis sint_int64_rem sint_0 signed_eq_0_iff)

section \<open>Construction\<close>

lemma New_ok:
  assumes "0 <s g" and "g <s w" and "int64_rem w g = 0"
  shows "New w g = Inr \<lparr>window = w, granularity = g,
            samples = replicate (nat (sint w div sint g)) (Finite 0),
            counts = replicate (nat (sint w div sint g)) 0,
            pos = 0, size' = sint w div sint g, stopped = False\<rparr>
         \<and> 2 \<le> sint w div sint g \<and> sint w div sint g * sint g = sint w"
proof -
  have g: "0 < sint g" and gw: "sint g < sint w"
    using assms by (simp_all add: word_sless_alt)
  then have nz: "w \<noteq> 0" "g \<noteq> 0" and nle: "\<not> w \<le>s g"
    by (auto simp: word_sle_eq)
  have "sint w mod sint g = 0"
    using assms(3) g gw by (simp add: int64_rem_eq_0 smod_nonneg)
  then have dv: "sint w div sint g * sint g = sint w"
    by (simp add: mod_0_imp_dvd)
  have two: "2 \<le> sint w div sint g"
  proof (rule ccontr)
    assume "\<not> 2 \<le> sint w div sint g"
    then have "sint w div sint g \<le> 1" by simp
    then have "sint w div sint g * sint g \<le> 1 * sint g"
      using g by (intro mult_right_mono) auto
    with dv gw show False by simp
  qed
  have cap: "sint (int64_div w g) = sint w div sint g"
    using g gw by (simp add: sint_int64_div_pos sdiv_pos_divisor)
  show ?thesis
    using nz nle assms(3) two dv
    by (simp add: New_def cap make_def and_then_def)
qed

lemma New_errors:
  "(w = 0 \<longrightarrow> New w g = Inl (Err ''window cannot be 0''))
   \<and> (w \<noteq> 0 \<and> g = 0 \<longrightarrow> New w g = Inl (Err ''granularity cannot be 0''))
   \<and> (w \<noteq> 0 \<and> g \<noteq> 0 \<and> (w \<le>s g \<or> int64_rem w g \<noteq> 0) \<longrightarrow>
        New w g = Inl (Err ''window size has to be a multiplier of the granularity size''))
   \<and> (w \<noteq> 0 \<and> w = g \<longrightarrow>
        int64_rem w g = 0
        \<and> New w g = Inl (Err ''window size has to be a multiplier of the granularity size''))"
proof -
  have "int64_rem g g = 0"
    by (cases "0 \<le> sint g") (simp_all add: int64_rem_eq_0 smod_nonneg smod_neg)
  then show ?thesis
    by (auto simp: New_def)
qed

lemma New_negative_granularity:
  assumes "0 <s w" and "g <s 0" and "int64_rem w g = 0"
  shows "sint (int64_div w g) < 0 \<and> New w g = Inl (Panic ''makeslice: len out of range'')"
proof -
  have w: "0 < sint w" and g: "sint g < 0"
    using assms by (simp_all add: word_sless_alt)
  then have nz: "w \<noteq> 0" "g \<noteq> 0" and nle: "\<not> w \<le>s g"
    by (auto simp: word_sle_eq)
  have m: "sint w mod (- sint g) = 0"
    using assms(3) w g by (simp add: int64_rem_eq_0 smod_nonneg)
  have "sint w div (- sint g) \<noteq> 0"
  proof
    assume z: "sint w div (- sint g) = 0"
    have "sint w div (- sint g) * (- sint g) + sint w mod (- sint g) = sint w"
      by (rule div_mult_mod_eq)
    then have "sint w = 0"
      unfolding z m by simp
    with w show False by simp
  qed
  moreover have "0 \<le> sint w div (- sint g)"
    using w g by (simp add: pos_imp_zdiv_nonneg_iff)
  ultimately have neg: "sint (int64_div w g) < 0"
    using w g by (simp add: sint_int64_div_neg)
  then show ?thesis
    using nz nle assms(3) by (simp add: New_def make_def and_then_def)
qed

lemma New_wf:
  assumes "New w g = Inr sw"
  shows "well_formed sw \<and> window sw = w \<and> granularity sw = g \<and> pos sw = 0
         \<and> size' sw = int (length (samples sw)) \<and> \<not> stopped sw"
proof -
  from assms have nz: "w \<noteq> 0" "g \<noteq> 0" and nle: "\<not> w \<le>s g" and rem: "int64_rem w g = 0"
    by (auto simp: New_def split: if_splits)
  from nle have gw: "sint g < sint w"
    by (simp add: word_sle_eq)
  from nz have w0: "sint w \<noteq> 0" and g0: "sint g \<noteq> 0"
    by (simp_all add: signed_eq_0_iff)
  have "0 < sint g"
  proof (rule ccontr)
    assume "\<not> 0 < sint g"
    with g0 have g: "sint g < 0" by simp
    show False
    proof (cases "0 < sint w")
      case True
      then have "New w g = Inl (Panic ''makeslice: len out of range'')"
        using New_negative_granularity [of w g] g rem by (simp add: word_sless_alt)
      with assms show False by simp
    next
      case False
      with w0 have w: "sint w < 0" by simp
      then have "sint w smod sint g = - ((- sint w) mod (- sint g))"
        using g by (simp add: smod_neg)
      also have "(- sint w) mod (- sint g) = - sint w"
        using w g gw by (simp add: mod_pos_pos_trivial)
      finally show False
        using rem w0 by (simp add: int64_rem_eq_0)
    qed
  qed
  then have pos: "0 <s g" and lt: "g <s w"
    using gw by (simp_all add: word_sless_alt)
  have cap: "sint (int64_div w g) = sint w div sint g"
    using \<open>0 < sint g\<close> gw by (simp add: sint_int64_div_pos sdiv_pos_divisor)
  from New_ok [OF pos lt rem] assms
  have sw: "sw = \<lparr>window = w, granularity = g,
            samples = replicate (nat (sint w div sint g)) (Finite 0),
            counts = replicate (nat (sint w div sint g)) 0,
            pos = 0, size' = sint w div sint g, stopped = False\<rparr>"
    and two: "2 \<le> sint w div sint g"
    by simp_all
  show ?thesis
    using pos lt rem two by (simp add: sw well_formed_def cap)
qed

section \<open>The methods on well-formed instances\<close>

lemma wf_granularity: "well_formed sw \<Longrightarrow> 0 <s granularity sw \<and> granularity sw \<noteq> 0"
  by (auto simp: well_formed_def word_sless_alt)

lemma shifter_tick_wf:
  assumes "well_formed sw"
  shows "shifter_tick sw =
           Inr (sw\<lparr>pos := (pos sw + 1) mod int (length (samples sw)),
                  samples := (samples sw)[nat ((pos sw + 1) mod int (length (samples sw)))
                               := Finite 0],
                  counts := (counts sw)[nat ((pos sw + 1) mod int (length (samples sw)))
                              := 0]\<rparr>)"
proof -
  from assms have p: "0 \<le> pos sw" "pos sw < int (length (samples sw))"
    and len: "length (counts sw) = length (samples sw)"
    by (simp_all add: well_formed_def)
  from p have ne: "samples sw \<noteq> []"
    by auto
  show ?thesis
  proof (cases "int (length (samples sw)) \<le> pos sw + 1")
    case True
    with p have "pos sw + 1 = int (length (samples sw))" by simp
    then have "(pos sw + 1) mod int (length (samples sw)) = 0" by simp
    with True p len ne show ?thesis
      by (simp add: shifter_tick_def Let_def)
  next
    case False
    with p have "(pos sw + 1) mod int (length (samples sw)) = pos sw + 1"
      by (simp add: mod_pos_pos_trivial)
    with False p len ne show ?thesis
      by (simp add: shifter_tick_def Let_def)
  qed
qed

lemma shifter_tick_preserves:
  assumes "well_formed sw"
  shows "\<exists>sw'. shifter_tick sw = Inr sw' \<and> well_formed sw' \<and> size' sw' = size' sw"
proof -
  from assms have "0 < int (length (samples sw))"
    by (simp add: well_formed_def)
  then have "0 \<le> (pos sw + 1) mod int (length (samples sw))
      \<and> (pos sw + 1) mod int (length (samples sw)) < int (length (samples sw))"
    by simp
  with assms show ?thesis
    by (simp add: shifter_tick_wf well_formed_def)
qed

lemma Add_preserves:
  assumes "well_formed sw"
  shows "\<exists>sw'. Add sw v = Inr sw' \<and> well_formed sw' \<and> size' sw' = size' sw"
  using assms by (simp add: Add_def well_formed_def)

lemma Reset_loop_closed:
  "i \<le> length (samples sw) \<Longrightarrow> length (counts sw) = length (samples sw) \<Longrightarrow>
   Reset_loop sw i =
     Inr (sw\<lparr>samples := take i (samples sw) @ replicate (length (samples sw) - i) (Finite 0),
            counts := take i (counts sw) @ replicate (length (samples sw) - i) 0\<rparr>)"
proof (induction sw i rule: Reset_loop.induct)
  case (1 sw i)
  show ?case
  proof (cases "i < length (samples sw)")
    case True
    let ?sw = "sw\<lparr>samples := (samples sw)[i := Finite 0], counts := (counts sw)[i := 0]\<rparr>"
    have ih: "Reset_loop ?sw (Suc i) =
        Inr (?sw\<lparr>samples := take (Suc i) (samples ?sw)
                      @ replicate (length (samples ?sw) - Suc i) (Finite 0),
                 counts := take (Suc i) (counts ?sw)
                      @ replicate (length (samples ?sw) - Suc i) 0\<rparr>)"
      using True "1.prems" by (intro "1.IH") auto
    have a: "take (Suc i) ((samples sw)[i := Finite 0])
              @ replicate (length (samples sw) - Suc i) (Finite 0)
             = take i (samples sw) @ replicate (length (samples sw) - i) (Finite 0)"
      using True
      by (simp add: take_Suc_conv_app_nth replicate_append_same Suc_diff_Suc
          flip: replicate_Suc)
    have b: "take (Suc i) ((counts sw)[i := 0])
              @ replicate (length (samples sw) - Suc i) 0
             = take i (counts sw) @ replicate (length (samples sw) - i) 0"
      using True "1.prems"
      by (simp add: take_Suc_conv_app_nth replicate_append_same Suc_diff_Suc
          flip: replicate_Suc)
    show ?thesis
      using True "1.prems" ih a b
      by (subst Reset_loop.simps) simp
  next
    case False
    with "1.prems" show ?thesis
      by (subst Reset_loop.simps) simp
  qed
qed

lemma Reset_closed:
  assumes "length (counts sw) = length (samples sw)"
  shows "Reset sw = Inr (sw\<lparr>pos := 0, size' := 0,
           samples := replicate (length (samples sw)) (Finite 0),
           counts := replicate (length (samples sw)) 0\<rparr>)"
  using assms Reset_loop_closed [of 0 "sw\<lparr>pos := 0, size' := 0\<rparr>"]
  by (simp add: Reset_def)

lemma Reset_preserves:
  assumes "well_formed sw"
  shows "\<exists>sw'. Reset sw = Inr sw' \<and> well_formed sw' \<and> size' sw' = 0"
proof -
  from assms have "length (counts sw) = length (samples sw)"
    by (simp add: well_formed_def)
  then show ?thesis
    using assms by (simp add: Reset_closed well_formed_def)
qed

lemma Total_loop_done: "sampleCount \<le> i \<Longrightarrow> Total_loop sw sampleCount i t c = Inr (t, c)"
  by (subst Total_loop.simps) simp

lemma Total_loop_ok:
  "length (counts sw) = length (samples sw) \<Longrightarrow> 0 \<le> pos sw \<Longrightarrow>
   pos sw < int (length (samples sw)) \<Longrightarrow> 0 \<le> i \<Longrightarrow>
   sampleCount \<le> int (length (samples sw)) \<Longrightarrow>
   \<exists>r. Total_loop sw sampleCount i t c = Inr r"
proof (induction sw sampleCount i t c rule: Total_loop.induct)
  case (1 sw sampleCount i t c)
  show ?case
  proof (cases "i < sampleCount")
    case True
    define p where "p = (if pos sw - i < 0 then pos sw - i + int (length (samples sw))
                  else pos sw - i)"
    have p: "\<not> (p < 0 \<or> int (length (samples sw)) \<le> p)" "\<not> int (length (counts sw)) \<le> p"
      using True "1.prems" by (auto simp: p_def)
    have "\<exists>r. Total_loop sw sampleCount (i + 1)
                   (f64_add t (samples sw ! nat p)) (c + counts sw ! nat p) = Inr r"
      using True p "1.prems" by (intro "1.IH" [OF True p_def]) auto
    moreover have "Total_loop sw sampleCount i t c =
        Total_loop sw sampleCount (i + 1)
          (f64_add t (samples sw ! nat p)) (c + counts sw ! nat p)"
      using True p unfolding p_def by (subst Total_loop.simps) (auto simp: Let_def)
    ultimately show ?thesis
      by simp
  next
    case False
    then show ?thesis
      by (simp add: Total_loop_done)
  qed
qed

lemma Total_ok:
  assumes "well_formed sw"
  shows "\<exists>r. Total' sw d = Inr r"
proof -
  from assms have g: "granularity sw \<noteq> 0"
    by (simp add: wf_granularity)
  from assms have a: "length (counts sw) = length (samples sw)" "0 \<le> pos sw"
    "pos sw < int (length (samples sw))" and s: "size' sw \<le> int (length (samples sw))"
    by (simp_all add: well_formed_def)
  have "\<exists>r. Total_loop sw n 0 (Finite 0) 0 = Inr r" if "n \<le> int (length (samples sw))" for n
    using a that by (intro Total_loop_ok) auto
  then show ?thesis
    using g s by (simp add: Total'_def Let_def)
qed

lemma Average_ok:
  assumes "well_formed sw"
  shows "\<exists>r. Average sw d = Inr r"
  using Total_ok [OF assms, of d] by (auto simp: Average_def split: prod.splits)

lemma Total_size_0:
  assumes "size' sw = 0" and "granularity sw \<noteq> 0"
  shows "Total' sw d = Inr (Finite 0, 0)"
  using assms by (simp add: Total'_def Let_def Total_loop_done)

lemma step_preserves:
  assumes "well_formed sw"
  shows "\<exists>sw'. step e sw = Inr sw' \<and> well_formed sw'
           \<and> size' sw' = (if e = CallReset then 0 else size' sw)"
proof (cases e)
  case (CallAdd v)
  then show ?thesis using Add_preserves [OF assms, of v] by simp
next
  case Tick
  then show ?thesis using shifter_tick_preserves [OF assms] assms by simp
next
  case CallReset
  then show ?thesis using Reset_preserves [OF assms] by simp
next
  case (CallTotal d)
  then show ?thesis using Total_ok [OF assms, of d] assms by (auto simp: and_then_def)
next
  case (CallAverage d)
  then show ?thesis using Average_ok [OF assms, of d] assms by (auto simp: and_then_def)
next
  case CallStop
  then show ?thesis using assms by (simp add: Stop_def well_formed_def)
qed

lemma step_size_le:
  assumes "well_formed sw" and "step e sw = Inr sw'"
  shows "well_formed sw' \<and> size' sw' \<le> size' sw \<and> (size' sw = 0 \<longrightarrow> size' sw' = 0)"
  using step_preserves [OF assms(1), of e] assms by (auto simp: well_formed_def)

lemma run_preserves:
  "well_formed sw \<Longrightarrow> \<exists>sw'. run es sw = Inr sw' \<and> well_formed sw' \<and> size' sw' \<le> size' sw
        \<and> (size' sw = 0 \<longrightarrow> size' sw' = 0)"
proof (induction es arbitrary: sw)
  case Nil
  then show ?case by simp
next
  case (Cons e es)
  from step_preserves [OF Cons.prems, of e] obtain sw1
    where s: "step e sw = Inr sw1" by blast
  from step_size_le [OF Cons.prems s]
  have w1: "well_formed sw1" and le1: "size' sw1 \<le> size' sw" and z1: "size' sw = 0 \<longrightarrow> size' sw1 = 0"
    by simp_all
  from Cons.IH [OF w1] obtain sw2
    where r: "run es sw1 = Inr sw2" and w2: "well_formed sw2" and le2: "size' sw2 \<le> size' sw1"
      and z2: "size' sw1 = 0 \<longrightarrow> size' sw2 = 0"
    by blast
  show ?case
    using s r w2 le1 le2 z1 z2 by (auto simp: and_then_def)
qed

lemma Total_nonpositive:
  assumes "0 <s granularity sw" and "d \<le>s 0"
  shows "Total' sw d = Inr (Finite 0, 0)"
proof -
  define d1 where "d1 = (if window sw <s d then window sw else d)"
  have g: "0 < sint (granularity sw)" and d: "sint d \<le> 0"
    using assms by (simp_all add: word_sless_alt word_sle_eq)
  then have g0: "granularity sw \<noteq> 0"
    by auto
  have "sint d1 \<le> 0"
    using d by (auto simp: d1_def word_sless_alt)
  then have "sint d1 sdiv sint (granularity sw) \<le> 0"
    using sdiv_pos_bounds [OF g, of "sint d1"] by (cases "sint d1 = 0") auto
  then have "sint (int64_div d1 (granularity sw)) \<le> 0"
    using g by (simp add: sint_int64_div_pos)
  then show ?thesis
    using g0 by (simp add: Total'_def Let_def d1_def [symmetric] Total_loop_done)
qed

lemma Average_nonpositive:
  assumes "0 <s granularity sw" and "d \<le>s 0"
  shows "Average sw d = Inr (Finite 0)"
  by (simp add: Average_def Total_nonpositive [OF assms])

section \<open>The float64 model on known values\<close>

lemma f64_round_one_tenth:
  "f64_round (1 / 10) = Finite (3602879701896397 / 36028797018963968)"
  by code_simp

lemma f64_const_19_9:
  "f64_const 2.1111111111111111 = Finite (4753799606668857 / 2251799813685248)"
  by code_simp

lemma f64_const_43_23:
  "f64_const 1.8695652173913044 = Finite (8419773216388319 / 4503599627370496)"
  by code_simp

lemma f64_of_int64_max: "f64_of_int64 9223372036854775807 = Finite 9223372036854775808"
  by code_simp

section \<open>The tests' scenarios, evaluated\<close>

lemma total_from_new_eval: "total_from_new = Inr (Finite 30, 2)"
  by code_simp

lemma fixture_total_1: "Total' fixture_total Second = Inr (Finite 2, 2)"
  by code_simp

lemma fixture_total_2: "Total' fixture_total (2 * Second) = Inr (Finite 3, 3)"
  by code_simp

lemma fixture_total_4: "Total' fixture_total (4 * Second) = Inr (Finite 7, 7)"
  by code_simp

lemma fixture_total_10: "Total' fixture_total (10 * Second) = Inr (Finite 12, 9)"
  by code_simp

lemma fixture_total_20: "Total' fixture_total (20 * Second) = Inr (Finite 12, 9)"
  by code_simp

lemma wf_fixture_total: "well_formed fixture_total"
  by code_simp

lemma reset_then_rotate_eval:
  "reset_then_rotate =
     Inr \<lparr>window = 10 * Second, granularity = Second,
          samples = map Finite [5, 0, 0, 0, 0, 0, 0, 0, 0, 0],
          counts = [1, 0, 0, 0, 0, 0, 0, 0, 0, 0],
          pos = 0, size' = 0, stopped = False\<rparr>"
  by code_simp

lemma reset_then_rotate_total:
  "and_then reset_then_rotate (\<lambda>sw. Total' sw (10 * Second)) = Inr (Finite 0, 0)"
  by code_simp

lemma ten_seconds_by_one:
  "0 <s Second \<and> Second <s 10 * Second \<and> int64_rem (10 * Second) Second = 0
   \<and> sint (10 * Second) div sint Second = 10"
  by code_simp

lemma two_seconds_by_minus_one:
  "0 <s 2 * Second \<and> - Second <s 0 \<and> int64_rem (2 * Second) (- Second) = 0"
  by code_simp

lemma rejected_configurations:
  "Second \<noteq> 0 \<and> Second \<le>s 2 * Second \<and> 3 * Second \<noteq> 0 \<and> 2 * Second \<noteq> 0
   \<and> int64_rem (3 * Second) (2 * Second) \<noteq> 0"
  by code_simp

lemma minus_one_second: "- Second <s 0 \<and> 0 <s granularity fixture_total"
  by code_simp

lemma New_ten_seconds:
  "New (10 * Second) Second =
     Inr \<lparr>window = 10 * Second, granularity = Second,
          samples = replicate 10 (Finite 0), counts = replicate 10 0,
          pos = 0, size' = 10, stopped = False\<rparr>"
  using New_ok [of Second "10 * Second"] ten_seconds_by_one by simp

section \<open>Properties of the specification\<close>

text \<open>
  C1. The input is the body of \<open>TestTotalFromNew\<close>: a fresh instance with a window of 10s
  and a granularity of 1s, then \<open>Add(10)\<close> and \<open>Add(20)\<close> with no tick in between. The test
  asserts the total 30 and the sample count 1. The code returns the total 30 with the
  sample count 2, since each \<open>Add\<close> increments the count of the current bucket, and so
  does not return the pair \<open>(30, 1)\<close>.
\<close>

theorem C1_total_from_new:
  "total_from_new = Inr (Finite 30, 2) \<and> total_from_new \<noteq> Inr (Finite 30, 1)"
  by (simp add: total_from_new_eval)

text \<open>
  C2, as the code has it. On the fixture of \<open>TestTotal\<close> (ten buckets, cursor 1,
  granularity 1s, values 1,2,5,0,0,0,0,0,4,0 and counts 1,2,2,0,0,0,0,0,4,0, size 10) the
  totals are the claimed 2, 3, 7, 12 and 12, and the sample counts are the sums of the
  counts of the buckets walked: 2, 3, 7, 9 and 9.
\<close>

theorem C2_fixture_totals:
  "Total' fixture_total Second = Inr (Finite 2, 2)
   \<and> Total' fixture_total (2 * Second) = Inr (Finite 3, 3)
   \<and> Total' fixture_total (4 * Second) = Inr (Finite 7, 7)
   \<and> Total' fixture_total (10 * Second) = Inr (Finite 12, 9)
   \<and> Total' fixture_total (20 * Second) = Inr (Finite 12, 9)"
  by (simp only: fixture_total_1 fixture_total_2 fixture_total_4 fixture_total_10
      fixture_total_20 simp_thms)

text \<open>C2 as stated, with the sample counts 2, 4, 9, 13 and 13, does not hold.\<close>

theorem C2_counterexample:
  "\<not> (Total' fixture_total Second = Inr (Finite 2, 2)
      \<and> Total' fixture_total (2 * Second) = Inr (Finite 3, 4)
      \<and> Total' fixture_total (4 * Second) = Inr (Finite 7, 9)
      \<and> Total' fixture_total (10 * Second) = Inr (Finite 12, 13)
      \<and> Total' fixture_total (20 * Second) = Inr (Finite 12, 13))"
  by (simp add: fixture_total_2)

text \<open>
  How far \<open>Reset\<close> reaches. On a well-formed instance \<open>Reset\<close> succeeds, and after it,
  whatever calls and rotation ticks follow, \<open>size\<close> is still 0 and every \<open>Total\<close> query
  returns \<open>(0, 0)\<close>, whatever the lookback: \<open>New\<close> starts with \<open>size\<close> at the number of
  buckets, \<open>Reset\<close> sets it to 0, and nothing raises it again.
\<close>

lemma Reset_blinds_Total:
  assumes "well_formed sw"
  shows "\<exists>sw1. Reset sw = Inr sw1
           \<and> (\<forall>es. \<exists>sw2. run es sw1 = Inr sw2 \<and> size' sw2 = 0
                  \<and> (\<forall>d. Total' sw2 d = Inr (Finite 0, 0)))"
proof -
  from Reset_preserves [OF assms] obtain sw1
    where r: "Reset sw = Inr sw1" and w1: "well_formed sw1" and z1: "size' sw1 = 0"
    by blast
  have "\<exists>sw2. run es sw1 = Inr sw2 \<and> size' sw2 = 0
          \<and> (\<forall>d. Total' sw2 d = Inr (Finite 0, 0))" for es
  proof -
    from run_preserves [OF w1, of es] z1 obtain sw2
      where r2: "run es sw1 = Inr sw2" and w2: "well_formed sw2" and z2: "size' sw2 = 0"
      by auto
    from w2 have "granularity sw2 \<noteq> 0"
      by (simp add: wf_granularity)
    with z2 have "\<forall>d. Total' sw2 d = Inr (Finite 0, 0)"
      by (simp add: Total_size_0)
    with r2 z2 show ?thesis by blast
  qed
  with r show ?thesis by blast
qed

text \<open>
  C3. The input: a fresh instance with a window of 10s and a granularity of 1s,
  \<open>Add(7)\<close>, \<open>Reset\<close>, a whole window of ten rotation ticks, \<open>Add(5)\<close>. Rotation ticks should
  have restored the retained buckets by then, so that \<open>Total(10s)\<close> observes the 5 added
  after the reset. In the code \<open>size\<close> is still 0, the current bucket holds 5 with the
  count 1, and \<open>Total(10s)\<close> returns \<open>(0, 0)\<close>.
\<close>

theorem C3_reset_then_rotate:
  "reset_then_rotate =
     Inr \<lparr>window = 10 * Second, granularity = Second,
          samples = map Finite [5, 0, 0, 0, 0, 0, 0, 0, 0, 0],
          counts = [1, 0, 0, 0, 0, 0, 0, 0, 0, 0],
          pos = 0, size' = 0, stopped = False\<rparr>
   \<and> Total' \<lparr>window = 10 * Second, granularity = Second,
          samples = map Finite [5, 0, 0, 0, 0, 0, 0, 0, 0, 0],
          counts = [1, 0, 0, 0, 0, 0, 0, 0, 0, 0],
          pos = 0, size' = 0, stopped = False\<rparr> (10 * Second) = Inr (Finite 0, 0)"
  using reset_then_rotate_total by (simp add: reset_then_rotate_eval and_then_def)

text \<open>
  C4. On the fixture of \<open>TestAverage\<close> (ten buckets, cursor 1, granularity 1s, values
  20,4,5,0,0,0,0,0,4,10 and counts 10,2,5,0,0,0,0,0,4,2, size 10): \<open>Average(0) = 0\<close>,
  \<open>Average(1s) = 2.0\<close>, \<open>Average(2s) = 2.0\<close>, \<open>Average(4s) = 2.1111111111111111\<close>,
  \<open>Average(10s) = 1.8695652173913044\<close> and \<open>Average(20s) = 1.8695652173913044\<close>, each
  decimal read as the \<open>float64\<close> constant it denotes.
\<close>

theorem C4_fixture_averages:
  "Average fixture_average 0 = Inr (f64_const 0)
   \<and> Average fixture_average Second = Inr (f64_const 2.0)
   \<and> Average fixture_average (2 * Second) = Inr (f64_const 2.0)
   \<and> Average fixture_average (4 * Second) = Inr (f64_const 2.1111111111111111)
   \<and> Average fixture_average (10 * Second) = Inr (f64_const 1.8695652173913044)
   \<and> Average fixture_average (20 * Second) = Inr (f64_const 1.8695652173913044)"
proof -
  have "Average fixture_average 0 = Inr (f64_const 0)"
    by code_simp
  moreover have "Average fixture_average Second = Inr (f64_const 2.0)"
    by code_simp
  moreover have "Average fixture_average (2 * Second) = Inr (f64_const 2.0)"
    by code_simp
  moreover have "Average fixture_average (4 * Second) = Inr (f64_const 2.1111111111111111)"
    by code_simp
  moreover have "Average fixture_average (10 * Second) = Inr (f64_const 1.8695652173913044)"
    by code_simp
  moreover have "Average fixture_average (20 * Second) = Inr (f64_const 1.8695652173913044)"
    by code_simp
  ultimately show ?thesis
    by (simp only: simp_thms)
qed

text \<open>
  C5. \<open>New\<close> fails with the corresponding error, checked in order: a zero window gives
  "window cannot be 0"; otherwise a zero granularity gives "granularity cannot be 0";
  otherwise \<open>window <= granularity\<close> or \<open>window % granularity != 0\<close> gives "window size has
  to be a multiplier of the granularity size". In particular a window equal to its
  granularity is rejected although it divides evenly.
\<close>

theorem C5_construction_errors:
  "(w = 0 \<longrightarrow> New w g = Inl (Err ''window cannot be 0''))
   \<and> (w \<noteq> 0 \<and> g = 0 \<longrightarrow> New w g = Inl (Err ''granularity cannot be 0''))
   \<and> (w \<noteq> 0 \<and> g \<noteq> 0 \<and> (w \<le>s g \<or> int64_rem w g \<noteq> 0) \<longrightarrow>
        New w g = Inl (Err ''window size has to be a multiplier of the granularity size''))
   \<and> (w \<noteq> 0 \<and> w = g \<longrightarrow>
        int64_rem w g = 0
        \<and> New w g = Inl (Err ''window size has to be a multiplier of the granularity size''))"
  by (rule New_errors)

text \<open>The theorem on the five configurations of \<open>TestNew\<close>.\<close>

theorem C5_witness:
  "New 0 Second = Inl (Err ''window cannot be 0'')
   \<and> New Second 0 = Inl (Err ''granularity cannot be 0'')
   \<and> New Second (2 * Second) =
       Inl (Err ''window size has to be a multiplier of the granularity size'')
   \<and> New (3 * Second) (2 * Second) =
       Inl (Err ''window size has to be a multiplier of the granularity size'')
   \<and> New Second Second =
       Inl (Err ''window size has to be a multiplier of the granularity size'')"
  using C5_construction_errors [of 0 Second] C5_construction_errors [of Second 0]
    C5_construction_errors [of Second "2 * Second"]
    C5_construction_errors [of "3 * Second" "2 * Second"]
    C5_construction_errors [of Second Second] rejected_configurations
  by simp

text \<open>
  C6. For a positive granularity and a window that is a multiple of it and strictly
  greater, \<open>New\<close> succeeds with \<open>window / granularity\<close> buckets (at least two), every value
  and count zero, the cursor 0 and \<open>size\<close> the number of buckets. (How much memory the
  two slices take is outside the model.)
\<close>

theorem C6_construction_succeeds:
  assumes "0 <s g" and "g <s w" and "int64_rem w g = 0"
  shows "New w g = Inr \<lparr>window = w, granularity = g,
            samples = replicate (nat (sint w div sint g)) (Finite 0),
            counts = replicate (nat (sint w div sint g)) 0,
            pos = 0, size' = sint w div sint g, stopped = False\<rparr>
         \<and> 2 \<le> sint w div sint g \<and> sint w div sint g * sint g = sint w"
  using assms by (rule New_ok)

text \<open>The theorem at a window of 10s and a granularity of 1s.\<close>

theorem C6_witness:
  "0 <s Second \<and> Second <s 10 * Second \<and> int64_rem (10 * Second) Second = 0
   \<and> New (10 * Second) Second =
       Inr \<lparr>window = 10 * Second, granularity = Second,
            samples = replicate 10 (Finite 0), counts = replicate 10 0,
            pos = 0, size' = 10, stopped = False\<rparr>"
  using C6_construction_succeeds [of Second "10 * Second"] ten_seconds_by_one
  by simp

text \<open>
  C7. On a well-formed instance a rotation tick moves the cursor to the next position
  modulo the number of buckets, zeroes the value and the count of the bucket it arrives
  at, and leaves every other bucket, \<open>size\<close> and the configuration unchanged.
\<close>

theorem C7_rotation_tick:
  assumes "well_formed sw"
  shows "\<exists>sw'. shifter_tick sw = Inr sw'
           \<and> pos sw' = (pos sw + 1) mod int (length (samples sw))
           \<and> length (samples sw') = length (samples sw)
           \<and> length (counts sw') = length (counts sw)
           \<and> samples sw' ! nat (pos sw') = Finite 0 \<and> counts sw' ! nat (pos sw') = 0
           \<and> (\<forall>i. i < length (samples sw) \<and> int i \<noteq> pos sw' \<longrightarrow>
                  samples sw' ! i = samples sw ! i \<and> counts sw' ! i = counts sw ! i)
           \<and> size' sw' = size' sw \<and> window sw' = window sw
           \<and> granularity sw' = granularity sw \<and> stopped sw' = stopped sw"
proof -
  define p where "p = (pos sw + 1) mod int (length (samples sw))"
  from assms have "0 < int (length (samples sw))"
    and len: "length (counts sw) = length (samples sw)"
    by (simp_all add: well_formed_def)
  then have p: "0 \<le> p" "p < int (length (samples sw))"
    by (simp_all add: p_def)
  have "\<forall>i. i < length (samples sw) \<and> int i \<noteq> p \<longrightarrow>
          (samples sw)[nat p := Finite 0] ! i = samples sw ! i
          \<and> (counts sw)[nat p := 0] ! i = counts sw ! i"
    using p by auto
  then show ?thesis
    using p len by (simp add: shifter_tick_wf [OF assms] p_def [symmetric])
qed

text \<open>The theorem on the fixture of \<open>TestTotal\<close>: the cursor moves from 1 to 2.\<close>

theorem C7_witness:
  "well_formed fixture_total
   \<and> (\<exists>sw'. shifter_tick fixture_total = Inr sw' \<and> pos sw' = 2
          \<and> samples sw' ! 2 = Finite 0 \<and> counts sw' ! 2 = 0
          \<and> samples sw' ! 1 = Finite 2 \<and> counts sw' ! 1 = 2 \<and> size' sw' = 10)"
proof -
  from C7_rotation_tick [OF wf_fixture_total] obtain sw'
    where t: "shifter_tick fixture_total = Inr sw'"
      and p: "pos sw' = (pos fixture_total + 1) mod int (length (samples fixture_total))"
      and z: "samples sw' ! nat (pos sw') = Finite 0" "counts sw' ! nat (pos sw') = 0"
      and f: "\<forall>i. i < length (samples fixture_total) \<and> int i \<noteq> pos sw' \<longrightarrow>
                  samples sw' ! i = samples fixture_total ! i
                  \<and> counts sw' ! i = counts fixture_total ! i"
      and s: "size' sw' = size' fixture_total"
    by blast
  from p have p2: "pos sw' = 2"
    by (simp add: fixture_total_def)
  from f [rule_format, of 1] p2
  have "samples sw' ! 1 = Finite 2 \<and> counts sw' ! 1 = 2"
    by (simp add: fixture_total_def)
  moreover from z p2 have "samples sw' ! 2 = Finite 0 \<and> counts sw' ! 2 = 0"
    by (simp add: numeral_2_eq_2)
  moreover from s have "size' sw' = 10"
    by (simp add: fixture_total_def)
  ultimately show ?thesis
    using t p2 wf_fixture_total by blast
qed

text \<open>
  C8. \<open>New\<close> sets \<open>size\<close> to the number of buckets. On a well-formed instance every call
  and every tick succeeds and leaves \<open>size\<close> unchanged, but for \<open>Reset\<close>, which sets it
  to 0; so no execution increases it, and once \<open>Reset\<close> has run it is 0 after every
  further execution.
\<close>

theorem C8_size_never_grows:
  "(New w g = Inr sw0 \<longrightarrow> well_formed sw0 \<and> size' sw0 = int (length (samples sw0)))
   \<and> (well_formed sw \<longrightarrow>
        (\<forall>e. \<exists>sw'. step e sw = Inr sw' \<and> well_formed sw'
               \<and> size' sw' = (if e = CallReset then 0 else size' sw)
               \<and> size' sw' \<le> size' sw)
        \<and> (\<forall>es. \<exists>sw'. run es sw = Inr sw' \<and> well_formed sw' \<and> size' sw' \<le> size' sw)
        \<and> (\<exists>sw1. Reset sw = Inr sw1
               \<and> (\<forall>es. \<exists>sw2. run es sw1 = Inr sw2 \<and> size' sw2 = 0)))"
proof (intro conjI impI allI)
  assume "New w g = Inr sw0"
  then show "well_formed sw0" and "size' sw0 = int (length (samples sw0))"
    using New_wf by blast+
next
  fix e
  assume w: "well_formed sw"
  from step_preserves [OF w, of e] obtain sw'
    where s: "step e sw = Inr sw'" and w': "well_formed sw'"
      and z: "size' sw' = (if e = CallReset then 0 else size' sw)"
    by blast
  from step_size_le [OF w s] have "size' sw' \<le> size' sw"
    by simp
  with s w' z show "\<exists>sw'. step e sw = Inr sw' \<and> well_formed sw'
               \<and> size' sw' = (if e = CallReset then 0 else size' sw)
               \<and> size' sw' \<le> size' sw"
    by blast
next
  fix es
  assume "well_formed sw"
  from run_preserves [OF this, of es]
  show "\<exists>sw'. run es sw = Inr sw' \<and> well_formed sw' \<and> size' sw' \<le> size' sw"
    by blast
next
  assume "well_formed sw"
  from Reset_preserves [OF this] obtain sw1
    where r: "Reset sw = Inr sw1" and w1: "well_formed sw1" and z1: "size' sw1 = 0"
    by blast
  have "\<exists>sw2. run es sw1 = Inr sw2 \<and> size' sw2 = 0" for es
    using run_preserves [OF w1, of es] z1 by auto
  with r show "\<exists>sw1. Reset sw = Inr sw1
               \<and> (\<forall>es. \<exists>sw2. run es sw1 = Inr sw2 \<and> size' sw2 = 0)"
    by blast
qed

text \<open>The theorem at a window of 10s by 1s and on the fixture of \<open>TestTotal\<close>.\<close>

theorem C8_witness:
  "well_formed fixture_total
   \<and> (\<exists>sw0. New (10 * Second) Second = Inr sw0 \<and> size' sw0 = int (length (samples sw0)))
   \<and> (\<exists>sw'. step Tick fixture_total = Inr sw' \<and> size' sw' = size' fixture_total)
   \<and> (\<exists>sw'. step (CallAdd (Finite 1)) fixture_total = Inr sw'
          \<and> size' sw' = size' fixture_total)
   \<and> (\<exists>sw1 sw2. Reset fixture_total = Inr sw1
          \<and> run [Tick, CallAdd (Finite 1), Tick] sw1 = Inr sw2 \<and> size' sw2 = 0)"
proof -
  let ?sw0 = "\<lparr>window = 10 * Second, granularity = Second,
          samples = replicate 10 (Finite 0), counts = replicate 10 0,
          pos = 0, size' = 10, stopped = False\<rparr>"
  note c = C8_size_never_grows [of "10 * Second" Second ?sw0 fixture_total]
  from c New_ten_seconds
  have a: "\<exists>sw0. New (10 * Second) Second = Inr sw0 \<and> size' sw0 = int (length (samples sw0))"
    by blast
  from c wf_fixture_total
  have b: "\<forall>e. \<exists>sw'. step e fixture_total = Inr sw'
               \<and> size' sw' = (if e = CallReset then 0 else size' fixture_total)"
    and d: "\<exists>sw1. Reset fixture_total = Inr sw1
               \<and> (\<forall>es. \<exists>sw2. run es sw1 = Inr sw2 \<and> size' sw2 = 0)"
    by blast+
  from b [rule_format, of Tick]
  have b1: "\<exists>sw'. step Tick fixture_total = Inr sw' \<and> size' sw' = size' fixture_total"
    by simp
  from b [rule_format, of "CallAdd (Finite 1)"]
  have b2: "\<exists>sw'. step (CallAdd (Finite 1)) fixture_total = Inr sw'
          \<and> size' sw' = size' fixture_total"
    by simp
  from d have d1: "\<exists>sw1 sw2. Reset fixture_total = Inr sw1
          \<and> run [Tick, CallAdd (Finite 1), Tick] sw1 = Inr sw2 \<and> size' sw2 = 0"
    by blast
  from wf_fixture_total a b1 b2 d1 show ?thesis
    by (intro conjI)
qed

text \<open>
  C9. A positive window with a negative granularity that divides it passes the three
  checks of \<open>New\<close>: the number of buckets \<open>window / granularity\<close> is negative, and \<open>New\<close>
  panics in \<open>make\<close> instead of returning an error.
\<close>

theorem C9_negative_granularity_panics:
  assumes "0 <s w" and "g <s 0" and "int64_rem w g = 0"
  shows "sint (int64_div w g) < 0 \<and> New w g = Inl (Panic ''makeslice: len out of range'')"
  using assms by (rule New_negative_granularity)

text \<open>The theorem at a window of 2s and a granularity of -1s.\<close>

theorem C9_witness:
  "0 <s 2 * Second \<and> - Second <s 0 \<and> int64_rem (2 * Second) (- Second) = 0
   \<and> sint (int64_div (2 * Second) (- Second)) < 0
   \<and> New (2 * Second) (- Second) = Inl (Panic ''makeslice: len out of range'')"
  using C9_negative_granularity_panics [of "2 * Second" "- Second"] two_seconds_by_minus_one
  by simp

text \<open>
  C10. On an instance with a positive granularity (every instance \<open>New\<close> returns has
  one, \<open>New_wf\<close>) and for every negative lookback, \<open>Total\<close> returns \<open>(0, 0)\<close> and \<open>Average\<close>
  returns 0, as they do for the lookback 0.
\<close>

theorem C10_negative_lookback:
  assumes "0 <s granularity sw" and "d <s 0"
  shows "Total' sw d = Inr (Finite 0, 0) \<and> Average sw d = Inr (Finite 0)
         \<and> Total' sw 0 = Inr (Finite 0, 0) \<and> Average sw 0 = Inr (Finite 0)"
proof -
  from assms(2) have "d \<le>s 0"
    by (simp add: word_sless_alt word_sle_eq)
  then show ?thesis
    using assms(1) by (simp add: Total_nonpositive Average_nonpositive)
qed

text \<open>The theorem on the fixture of \<open>TestTotal\<close> with a lookback of -1s.\<close>

theorem C10_witness:
  "0 <s granularity fixture_total \<and> - Second <s 0
   \<and> Total' fixture_total (- Second) = Inr (Finite 0, 0)
   \<and> Average fixture_total (- Second) = Inr (Finite 0)"
  using C10_negative_lookback [of fixture_total "- Second"] minus_one_second
  by simp

end
